theory Spec2Isabelle
  imports Complex_Main "HOL-Library.AList" "HOL-Library.Sublist"
begin

section \<open>Data model\<close>

text \<open>
  An instant is the time value of a JavaScript \<open>Date\<close>: a whole number of milliseconds
  since the epoch.
\<close>

type_synonym instant = int

text \<open>
  What a position of the domain array, or the result of the \<open>dropDate\<close> accessor, can
  hold: a \<open>Date\<close> with a time value, a \<open>Date\<close> whose time value is \<open>NaN\<close>, or anything
  that is not a \<open>Date\<close> (\<open>null\<close>, \<open>undefined\<close>, a number, a string).
\<close>

datatype jsval = Date instant | InvalidDate | NotDate

text \<open>\<open>isValidDate\<close> (timeScale.js): \<open>date instanceof Date && !isNaN(date.getTime())\<close>.\<close>

fun isValidDate :: "jsval \<Rightarrow> bool" where
  "isValidDate (Date t) = True"
| "isValidDate InvalidDate = False"
| "isValidDate NotDate = False"

text \<open>
  A d3 time interval, as far as the program uses it: \<open>floor\<close>, \<open>ceil\<close>, \<open>offset\<close> and
  \<open>count\<close>. d3 itself is an external library that every function receives as an
  argument, so it is a parameter of the model.
\<close>

record time_interval =
  floor_iv :: "instant \<Rightarrow> instant"
  ceil_iv :: "instant \<Rightarrow> instant"
  offset_iv :: "instant \<Rightarrow> int \<Rightarrow> instant"
  count_iv :: "instant \<Rightarrow> instant \<Rightarrow> int"

record d3_time =
  timeYear :: time_interval
  timeYear_every :: "int \<Rightarrow> time_interval"
  timeMonth :: time_interval
  timeWeek :: time_interval
  timeDay :: time_interval
  timeHour :: time_interval
  timeMinute :: time_interval
  timeSecond :: time_interval

text \<open>
  The scale \<open>xScale\<close> (a d3 \<open>scaleTime\<close>, also external): its domain array (\<open>None\<close> when
  \<open>domain()\<close> returns a falsy value), its tick generator (\<open>None\<close> for a falsy result) and
  the pixel position of an instant, a real number here.
\<close>

record xscale =
  xs_domain :: "jsval list option"
  xs_ticks :: "int \<Rightarrow> instant list option"
  xs_px :: "instant \<Rightarrow> real"

text \<open>The object \<open>{ start, end }\<close> that \<open>validateDomain\<close> returns; both dates are valid
  there, and the model keeps their time values.\<close>

record domain_info =
  dstart :: instant
  dend :: instant

text \<open>The option \<open>bucketSize\<close>: \<open>{ minWidth: number|null, maxWidth: number|null }\<close>.\<close>

record bucket_size =
  minWidth :: "real option"
  maxWidth :: "real option"

section \<open>timeScale.js\<close>

definition TIMESCALE_HIERARCHY :: "string list" where
  "TIMESCALE_HIERARCHY =
     [''milliseconds'', ''seconds'', ''minutes'', ''hours'', ''days'', ''weeks'',
      ''months'', ''years'', ''decades'']"

definition BUCKET_SCALE_MAP :: "(string \<times> string) list" where
  "BUCKET_SCALE_MAP =
     [(''millennium'', ''decades''),
      (''decades'', ''years''),
      (''years'', ''months''),
      (''months'', ''weeks''),
      (''weeks'', ''days''),
      (''days'', ''hours''),
      (''hours'', ''minutes''),
      (''minutes'', ''seconds''),
      (''seconds'', ''milliseconds''),
      (''milliseconds'', ''milliseconds'')]"

definition getD3TimeInterval :: "d3_time \<Rightarrow> string \<Rightarrow> time_interval" where
  "getD3TimeInterval d3 scale =
     (if scale = ''millennium'' then timeYear_every d3 1000
      else if scale = ''decades'' then timeYear_every d3 10
      else if scale = ''years'' then timeYear d3
      else if scale = ''months'' then timeMonth d3
      else if scale = ''weeks'' then timeWeek d3
      else if scale = ''days'' then timeDay d3
      else if scale = ''hours'' then timeHour d3
      else if scale = ''minutes'' then timeMinute d3
      else if scale = ''seconds'' then timeSecond d3
      else if scale = ''milliseconds'' then timeSecond d3
      else timeDay d3)"

definition validateDomain :: "jsval list option \<Rightarrow> domain_info option" where
  "validateDomain domain =
     (case domain of
        None \<Rightarrow> None
      | Some xs \<Rightarrow>
          if length xs < 2 then None
          else (case (xs ! 0, xs ! 1) of
                  (Date s, Date e) \<Rightarrow> Some \<lparr>dstart = s, dend = e\<rparr>
                | _ \<Rightarrow> None))"

definition calculateBucketWidth :: "d3_time \<Rightarrow> xscale \<Rightarrow> string \<Rightarrow> real" where
  "calculateBucketWidth d3 xScale bucketScale =
     (case validateDomain (xs_domain xScale) of
        None \<Rightarrow> 0
      | Some domainInfo \<Rightarrow>
          let timeInterval = getD3TimeInterval d3 bucketScale;
              bucketStartDate = floor_iv timeInterval (dstart domainInfo);
              bucketEndDate = offset_iv timeInterval bucketStartDate 1;
              bucketStart = xs_px xScale bucketStartDate;
              bucketEnd = xs_px xScale bucketEndDate
          in max 0 (bucketEnd - bucketStart))"

text \<open>\<open>detectTickScaleFromDuration\<close>: the duration heuristic, first match wins.\<close>

definition detectTickScaleFromDuration :: "int \<Rightarrow> string" where
  "detectTickScaleFromDuration duration =
     (let durationDays = real_of_int duration / (1000 * 60 * 60 * 24);
          durationYears = durationDays / 365.25
      in if durationYears \<ge> 1000 then ''millennium''
         else if durationYears \<ge> 10 then ''decades''
         else if durationDays \<ge> 365 then ''years''
         else if durationDays \<ge> 30 then ''months''
         else if durationDays \<ge> 7 then ''weeks''
         else if durationDays \<ge> 1 then ''days''
         else if duration \<ge> 1000 * 60 * 60 then ''hours''
         else if duration \<ge> 1000 * 60 then ''minutes''
         else if duration \<ge> 1000 then ''seconds''
         else ''milliseconds'')"

text \<open>An entry of the array \<open>candidates\<close> of \<open>detectTickScaleFromTicks\<close>; its field
  \<open>count\<close> is \<open>cand_count\<close> here, apart from the \<open>count\<close> of a bucket.\<close>

record candidate =
  scale :: string
  expectedDuration :: int
  cand_count :: int

text \<open>
  The array \<open>candidates\<close> as \<open>detectTickScaleFromTicks\<close> builds it from the first two
  ticks: one conditional \<open>push\<close> per unit, in the order of the source, and the
  unconditional \<open>milliseconds\<close> entry last.
\<close>

definition candidates :: "d3_time \<Rightarrow> instant \<Rightarrow> instant \<Rightarrow> candidate list" where
  "candidates d3 tick1 tick2 =
     (let tickDuration = tick2 - tick1;
          yearCount = count_iv (timeYear d3) tick1 tick2;
          monthCount = count_iv (timeMonth d3) tick1 tick2;
          weekCount = count_iv (timeWeek d3) tick1 tick2;
          dayCount = count_iv (timeDay d3) tick1 tick2;
          hourCount = count_iv (timeHour d3) tick1 tick2;
          minuteCount = count_iv (timeMinute d3) tick1 tick2;
          secondCount = count_iv (timeSecond d3) tick1 tick2
      in (if yearCount \<ge> 1000
          then [\<lparr>scale = ''millennium'',
                 expectedDuration = offset_iv (timeYear d3) tick1 yearCount - tick1,
                 cand_count = yearCount div 1000\<rparr>]
          else [])
       @ (if yearCount \<ge> 10
          then [\<lparr>scale = ''decades'',
                 expectedDuration = offset_iv (timeYear d3) tick1 yearCount - tick1,
                 cand_count = yearCount div 10\<rparr>]
          else [])
       @ (if yearCount \<ge> 1
          then [\<lparr>scale = ''years'',
                 expectedDuration = offset_iv (timeYear d3) tick1 yearCount - tick1,
                 cand_count = yearCount\<rparr>]
          else [])
       @ (if monthCount \<ge> 1
          then [\<lparr>scale = ''months'',
                 expectedDuration = offset_iv (timeMonth d3) tick1 monthCount - tick1,
                 cand_count = monthCount\<rparr>]
          else [])
       @ (if weekCount \<ge> 1
          then [\<lparr>scale = ''weeks'',
                 expectedDuration = offset_iv (timeWeek d3) tick1 weekCount - tick1,
                 cand_count = weekCount\<rparr>]
          else [])
       @ (if dayCount \<ge> 1
          then [\<lparr>scale = ''days'',
                 expectedDuration = offset_iv (timeDay d3) tick1 dayCount - tick1,
                 cand_count = dayCount\<rparr>]
          else [])
       @ (if hourCount \<ge> 1
          then [\<lparr>scale = ''hours'',
                 expectedDuration = offset_iv (timeHour d3) tick1 hourCount - tick1,
                 cand_count = hourCount\<rparr>]
          else [])
       @ (if minuteCount \<ge> 1
          then [\<lparr>scale = ''minutes'',
                 expectedDuration = offset_iv (timeMinute d3) tick1 minuteCount - tick1,
                 cand_count = minuteCount\<rparr>]
          else [])
       @ (if secondCount \<ge> 1
          then [\<lparr>scale = ''seconds'',
                 expectedDuration = offset_iv (timeSecond d3) tick1 secondCount - tick1,
                 cand_count = secondCount\<rparr>]
          else [])
       @ [\<lparr>scale = ''milliseconds'', expectedDuration = tickDuration, cand_count = 1\<rparr>])"

text \<open>
  The selection loop: the state is \<open>(bestScale, minDifference)\<close>, with \<open>None\<close> for
  the initial \<open>Infinity\<close>; a candidate replaces the best one only on a strictly
  smaller difference.
\<close>

definition pickStep :: "int \<Rightarrow> candidate \<Rightarrow> string \<times> int option \<Rightarrow> string \<times> int option" where
  "pickStep tickDuration c st =
     (let difference = \<bar>expectedDuration c - tickDuration\<bar>
      in if (case snd st of None \<Rightarrow> True | Some minDifference \<Rightarrow> difference < minDifference)
         then (scale c, Some difference)
         else st)"

definition detectTickScaleFromTicks :: "d3_time \<Rightarrow> instant list \<Rightarrow> string" where
  "detectTickScaleFromTicks d3 sampleTicks =
     (if length sampleTicks < 2 then ''days''
      else let tick1 = sampleTicks ! 0;
               tick2 = sampleTicks ! 1;
               tickDuration = tick2 - tick1
           in fst (fold (pickStep tickDuration) (candidates d3 tick1 tick2)
                     (''milliseconds'', None)))"

text \<open>\<open>Array.prototype.indexOf\<close>: the first position of the element, or \<open>-1\<close>.\<close>

fun indexOf :: "'a list \<Rightarrow> 'a \<Rightarrow> int" where
  "indexOf [] x = -1"
| "indexOf (y # ys) x =
     (if y = x then 0 else (let i = indexOf ys x in if i = -1 then -1 else i + 1))"

text \<open>
  The two loops of \<open>refineBucketScale\<close>; the state is \<open>(bucketScale, currentWidth)\<close>
  and returning without a recursive call is the \<open>break\<close>.
\<close>

function minLoop :: "d3_time \<Rightarrow> xscale \<Rightarrow> real \<Rightarrow> int \<Rightarrow> string \<times> real \<Rightarrow> string \<times> real" where
  "minLoop d3 xScale minW i st =
     (if i < int (length TIMESCALE_HIERARCHY)
      then let testScale = TIMESCALE_HIERARCHY ! nat i;
               testWidth = calculateBucketWidth d3 xScale testScale
           in if testWidth \<ge> minW then (testScale, testWidth)
              else if i = int (length TIMESCALE_HIERARCHY) - 1
                   then minLoop d3 xScale minW (i + 1) (testScale, testWidth)
                   else minLoop d3 xScale minW (i + 1) st
      else st)"
  by pat_completeness auto
termination
  by (relation "measure (\<lambda>(d3, xScale, minW, i, st). nat (int (length TIMESCALE_HIERARCHY) - i))") auto

function maxLoop :: "d3_time \<Rightarrow> xscale \<Rightarrow> real \<Rightarrow> int \<Rightarrow> string \<times> real \<Rightarrow> string \<times> real" where
  "maxLoop d3 xScale maxW i st =
     (if i \<ge> 0
      then let testScale = TIMESCALE_HIERARCHY ! nat i;
               testWidth = calculateBucketWidth d3 xScale testScale
           in if testWidth \<le> maxW then (testScale, testWidth)
              else if i = 0
                   then maxLoop d3 xScale maxW (i - 1) (testScale, testWidth)
                   else maxLoop d3 xScale maxW (i - 1) st
      else st)"
  by pat_completeness auto
termination
  by (relation "measure (\<lambda>(d3, xScale, maxW, i, st). nat (i + 1))") auto

text \<open>
  \<open>refineBucketScale\<close>. When the given scale is not in the hierarchy the source
  reassigns \<open>currentScaleIndex\<close>, \<open>bucketScale\<close> and \<open>currentWidth\<close> for \<open>days\<close>; here
  \<open>found\<close> selects between the two. \<open>st1\<close> is the state after the block for
  \<open>minWidth\<close>, \<open>st2\<close> the state after the block for \<open>maxWidth\<close>; as in the source, the
  second block starts from the \<open>currentScaleIndex\<close> computed at the top.
\<close>

definition refineBucketScale :: "d3_time \<Rightarrow> xscale \<Rightarrow> string \<Rightarrow> bucket_size \<Rightarrow> string" where
  "refineBucketScale d3 xScale bucketScale0 bucketSize =
     (let found = (indexOf TIMESCALE_HIERARCHY bucketScale0 \<noteq> -1);
          currentScaleIndex = (if found then indexOf TIMESCALE_HIERARCHY bucketScale0
                               else indexOf TIMESCALE_HIERARCHY ''days'');
          bucketScale = (if found then bucketScale0 else ''days'');
          currentWidth = calculateBucketWidth d3 xScale bucketScale;
          st1 = (case minWidth bucketSize of
                   None \<Rightarrow> (bucketScale, currentWidth)
                 | Some minW \<Rightarrow>
                     if currentWidth < minW
                     then minLoop d3 xScale minW (currentScaleIndex + 1) (bucketScale, currentWidth)
                     else (bucketScale, currentWidth));
          st2 = (case maxWidth bucketSize of
                   None \<Rightarrow> st1
                 | Some maxW \<Rightarrow>
                     if snd st1 > maxW
                     then maxLoop d3 xScale maxW (currentScaleIndex - 1) st1
                     else st1)
      in fst st2)"

text \<open>
  The tick count that \<open>getTimeScale\<close> passes to \<open>xScale.ticks\<close>.
  \<open>numberDisplayedTicks\<close> is an object from breakpoint labels to tick counts (\<open>None\<close>
  when falsy); the label is falsy when absent or empty.
\<close>

definition tickCountOf :: "(string \<rightharpoonup> int) option \<Rightarrow> string option \<Rightarrow> int" where
  "tickCountOf numberDisplayedTicks breakpointLabel =
     (case (numberDisplayedTicks, breakpointLabel) of
        (Some n, Some l) \<Rightarrow> (if l \<noteq> [] then (case n l of Some c \<Rightarrow> c | None \<Rightarrow> 10) else 10)
      | _ \<Rightarrow> 10)"

text \<open>\<open>getTimeScale\<close>.\<close>

definition getTimeScale ::
  "d3_time \<Rightarrow> xscale \<Rightarrow> (string \<rightharpoonup> int) option \<Rightarrow> string option \<Rightarrow> bucket_size option \<Rightarrow> string" where
  "getTimeScale d3 xScale numberDisplayedTicks breakpointLabel bucketSize =
     (case validateDomain (xs_domain xScale) of
        None \<Rightarrow> ''days''
      | Some domainInfo \<Rightarrow>
          let tickCount = tickCountOf numberDisplayedTicks breakpointLabel;
              sampleTicks = xs_ticks xScale tickCount;
              tickScale =
                (case sampleTicks of
                   None \<Rightarrow> detectTickScaleFromDuration (dend domainInfo - dstart domainInfo)
                 | Some ts \<Rightarrow>
                     if length ts < 2
                     then detectTickScaleFromDuration (dend domainInfo - dstart domainInfo)
                     else detectTickScaleFromTicks d3 ts);
              bucketScale = (case map_of BUCKET_SCALE_MAP tickScale of
                               Some s \<Rightarrow> s | None \<Rightarrow> ''days'')
          in (case bucketSize of
                None \<Rightarrow> bucketScale
              | Some bs \<Rightarrow>
                  if minWidth bs \<noteq> None \<or> maxWidth bs \<noteq> None
                  then refineBucketScale d3 xScale bucketScale bs
                  else bucketScale))"

text \<open>
  \<open>shouldUseHeatmap\<close>. The dates of \<open>domainInfo\<close> were validated by
  \<open>validateDomain\<close>, so the second validity check sees two valid dates.
\<close>

definition shouldUseHeatmap ::
  "d3_time \<Rightarrow> xscale \<Rightarrow> (string \<rightharpoonup> int) option \<Rightarrow> string option \<Rightarrow> bucket_size option \<Rightarrow> bool" where
  "shouldUseHeatmap d3 xScale numberDisplayedTicks breakpointLabel bucketSize =
     (case validateDomain (xs_domain xScale) of
        None \<Rightarrow> False
      | Some domainInfo \<Rightarrow>
          if \<not> isValidDate (Date (dstart domainInfo)) \<or> \<not> isValidDate (Date (dend domainInfo))
          then False
          else let timeScale = getTimeScale d3 xScale numberDisplayedTicks breakpointLabel bucketSize
               in timeScale \<in> set [''days'', ''weeks'', ''months'', ''years'', ''decades''])"

definition getTimeInterval ::
  "d3_time \<Rightarrow> xscale \<Rightarrow> (string \<rightharpoonup> int) option \<Rightarrow> string option \<Rightarrow> bucket_size option \<Rightarrow> time_interval" where
  "getTimeInterval d3 xScale numberDisplayedTicks breakpointLabel bucketSize =
     (case validateDomain (xs_domain xScale) of
        None \<Rightarrow> timeDay d3
      | Some domainInfo \<Rightarrow>
          getD3TimeInterval d3
            (getTimeScale d3 xScale numberDisplayedTicks breakpointLabel bucketSize))"

section \<open>heatmap.js\<close>

record 'e bucket =
  date :: instant
  count :: nat
  events :: "'e list"

record 'e heat_bucket = "'e bucket" +
  intensity :: real

text \<open>
  The body of the \<open>forEach\<close> callback of \<open>aggregateEvents\<close>. The \<open>Map\<close> of buckets
  is an association list in insertion order: \<open>has\<close> and \<open>get\<close> are \<open>map_of\<close>, and
  \<open>set\<close> is \<open>AList.update\<close>, which replaces the value of a key in place and appends a
  new key at the end.
\<close>

definition aggregateStep ::
  "('e \<Rightarrow> jsval) \<Rightarrow> time_interval \<Rightarrow> instant \<Rightarrow> instant \<Rightarrow> instant \<Rightarrow> instant \<Rightarrow>
     'e \<Rightarrow> (instant \<times> 'e bucket) list \<Rightarrow> (instant \<times> 'e bucket) list" where
  "aggregateStep dropDate timeInterval domainStart domainEnd bucketStartBound bucketEndBound
       event buckets =
     (case dropDate event of
        Date eventDate \<Rightarrow>
          if eventDate < domainStart \<or> eventDate \<ge> domainEnd then buckets
          else
            let bucketDate = floor_iv timeInterval eventDate
            in if bucketDate \<ge> bucketStartBound \<and> bucketDate \<le> bucketEndBound
               then
                 let bucketKey = bucketDate;
                     buckets1 =
                       (if map_of buckets bucketKey = None
                        then AList.update bucketKey
                               \<lparr>date = bucketDate, count = 0, events = []\<rparr> buckets
                        else buckets)
                 in (case map_of buckets1 bucketKey of
                       None \<Rightarrow> buckets1
                     | Some bucket \<Rightarrow>
                         AList.update bucketKey
                           (bucket\<lparr>count := count bucket + 1,
                                   events := events bucket @ [event]\<rparr>) buckets1)
               else buckets
      | InvalidDate \<Rightarrow> buckets
      | NotDate \<Rightarrow> buckets)"

text \<open>
  \<open>aggregateEvents\<close>; its argument \<open>events\<close> is \<open>None\<close> when it is not an array. The
  result is the values of the map, sorted by date (the sort of JavaScript is stable,
  as \<open>sort_key\<close> is).
\<close>

definition aggregateEvents ::
  "xscale \<Rightarrow> ('e \<Rightarrow> jsval) \<Rightarrow> 'e list option \<Rightarrow> time_interval \<Rightarrow> 'e bucket list" where
  "aggregateEvents xScale dropDate evs timeInterval =
     (case validateDomain (xs_domain xScale) of
        None \<Rightarrow> []
      | Some domainInfo \<Rightarrow>
          let domainStart = dstart domainInfo;
              domainEnd = dend domainInfo;
              bucketStartBound = floor_iv timeInterval domainStart;
              bucketEndBound = ceil_iv timeInterval domainEnd;
              buckets =
                (case evs of
                   None \<Rightarrow> []
                 | Some es \<Rightarrow>
                     fold (aggregateStep dropDate timeInterval domainStart domainEnd
                             bucketStartBound bucketEndBound) es [])
          in sort_key date (map snd buckets))"

text \<open>\<open>getMaxIntensity\<close>; \<open>Math.max(...counts, 0)\<close> is the maximum of the counts and 0.\<close>

definition getMaxIntensity :: "'e bucket list \<Rightarrow> nat" where
  "getMaxIntensity buckets =
     (if length buckets = 0 then 1
      else let maxCount = fold max (map count buckets) 0
           in if maxCount > 0 then maxCount else 1)"

text \<open>
  \<open>getHeatmapBucketData\<close>. The row \<open>d\<close> is \<open>None\<close> when falsy; its field \<open>data\<close> is
  \<open>None\<close> when falsy, \<open>Some None\<close> when it is not an array, \<open>Some (Some es)\<close> for an
  array. The quotient \<open>count / maxCount\<close> is taken in the reals.
\<close>

record 'e row =
  data :: "'e list option option"

definition getHeatmapBucketData ::
  "xscale \<Rightarrow> ('e \<Rightarrow> jsval) \<Rightarrow> time_interval \<Rightarrow> 'e row option \<Rightarrow> 'e heat_bucket list" where
  "getHeatmapBucketData xScale dropDate timeInterval d =
     (case d of
        None \<Rightarrow> []
      | Some r \<Rightarrow>
          (case data r of
             None \<Rightarrow> []
           | Some evs \<Rightarrow>
               let buckets = aggregateEvents xScale dropDate evs timeInterval;
                   maxCount = getMaxIntensity buckets
               in map (\<lambda>bucket.
                         bucket.extend bucket
                           \<lparr>intensity =
                              (if maxCount > 0
                               then min (real (count bucket) / real maxCount) 1
                               else 0)\<rparr>)
                    buckets))"

section \<open>A concrete calendar and scale\<close>

text \<open>
  Modelled from the spec: the calendar collaborator (section 9: \<open>floor(instant)\<close>,
  \<open>ceil(instant)\<close>, \<open>offset(instant, n)\<close>, \<open>count(a, b)\<close>, with calendar-aware month
  and year lengths), which the d3 library provides and the repository does not
  contain. The theorems below are about every d3 object; this instance, the proleptic
  Gregorian calendar in UTC with weeks that start on Sunday, is where they are
  evaluated at concrete inputs.
\<close>

definition msPerDay :: int where
  "msPerDay = 86400000"

text \<open>
  Day numbers count days since 1970-01-01. Inside, years begin in March (so that a leap
  day is the last day of its year) and are grouped in eras of 400 years, 146097 days
  each; 719468 is the number of days from 0000-03-01 to 1970-01-01. This first function
  is the day number of day \<open>d\<close> of the month with index \<open>mp\<close> (0 for March, 11 for
  February) of the March-based year \<open>y\<close>.
\<close>

definition days_from_march_year :: "int \<Rightarrow> int \<Rightarrow> int \<Rightarrow> int" where
  "days_from_march_year y mp d =
     y div 400 * 146097
       + (y mod 400 * 365 + y mod 400 div 4 - y mod 400 div 100 + ((153 * mp + 2) div 5 + d - 1))
       - 719468"

text \<open>The day number of a civil date, month in \<open>1..12\<close>.\<close>

definition days_from_civil :: "int \<Rightarrow> int \<Rightarrow> int \<Rightarrow> int" where
  "days_from_civil y m d =
     (if m \<le> 2 then days_from_march_year (y - 1) (m + 9) d
      else days_from_march_year y (m - 3) d)"

text \<open>Of a day of an era (\<open>0..146096\<close>): its year of the era and its day in that year.\<close>

definition year_of_era :: "int \<Rightarrow> int" where
  "year_of_era doe = (doe - doe div 1460 + doe div 36524 - doe div 146096) div 365"

definition day_of_year :: "int \<Rightarrow> int" where
  "day_of_year doe =
     doe - (365 * year_of_era doe + year_of_era doe div 4 - year_of_era doe div 100)"

definition march_month :: "int \<Rightarrow> int" where
  "march_month doy = (5 * doy + 2) div 153"

text \<open>The civil date (year, month in \<open>1..12\<close>, day) of a day of a March-based year.\<close>

definition march_date :: "int \<Rightarrow> int \<Rightarrow> int \<times> int \<times> int" where
  "march_date y doy =
     (if march_month doy < 10
      then (y, march_month doy + 3, doy - (153 * march_month doy + 2) div 5 + 1)
      else (y + 1, march_month doy - 9, doy - (153 * march_month doy + 2) div 5 + 1))"

text \<open>The civil date of a day number.\<close>

definition civil_from_days :: "int \<Rightarrow> int \<times> int \<times> int" where
  "civil_from_days z =
     march_date ((z + 719468) div 146097 * 400 + year_of_era ((z + 719468) mod 146097))
       (day_of_year ((z + 719468) mod 146097))"

definition getFullYear :: "instant \<Rightarrow> int" where
  "getFullYear t = fst (civil_from_days (t div msPerDay))"

text \<open>Months count from 0, as in JavaScript.\<close>

definition getMonth :: "instant \<Rightarrow> int" where
  "getMonth t = fst (snd (civil_from_days (t div msPerDay))) - 1"

definition getDate :: "instant \<Rightarrow> int" where
  "getDate t = snd (snd (civil_from_days (t div msPerDay)))"

text \<open>
  The instant of a year, a month index and a day of the month that may both lie
  outside their range (they carry over, as in \<open>setMonth\<close> and \<open>setFullYear\<close>), at a
  time of day.
\<close>

definition makeDate :: "int \<Rightarrow> int \<Rightarrow> int \<Rightarrow> int \<Rightarrow> instant" where
  "makeDate y m d ms =
     (days_from_civil (y + m div 12) (m mod 12 + 1) 1 + d - 1) * msPerDay + ms"

text \<open>
  An interval from its three primitives, as d3 builds one: \<open>ceil\<close> floors the
  preceding instant, advances by one unit and floors again; \<open>count\<close> counts between
  the floors.
\<close>

definition mkInterval ::
  "(instant \<Rightarrow> instant) \<Rightarrow> (instant \<Rightarrow> int \<Rightarrow> instant) \<Rightarrow> (instant \<Rightarrow> instant \<Rightarrow> int)
     \<Rightarrow> time_interval" where
  "mkInterval floori offseti counti =
     \<lparr>floor_iv = floori,
      ceil_iv = (\<lambda>t. floori (offseti (floori (t - 1)) 1)),
      offset_iv = offseti,
      count_iv = (\<lambda>a b. counti (floori a) (floori b))\<rparr>"

definition fixedInterval :: "int \<Rightarrow> time_interval" where
  "fixedInterval len =
     mkInterval (\<lambda>t. t - t mod len) (\<lambda>t n. t + n * len) (\<lambda>a b. (b - a) div len)"

text \<open>1970-01-01 was a Thursday: day number \<open>d\<close> is weekday \<open>(d + 4) mod 7\<close>, Sunday 0.\<close>

definition utcWeek :: time_interval where
  "utcWeek =
     mkInterval (\<lambda>t. (t div msPerDay - (t div msPerDay + 4) mod 7) * msPerDay)
       (\<lambda>t n. t + n * 7 * msPerDay)
       (\<lambda>a b. (b - a) div (7 * msPerDay))"

definition utcMonth :: time_interval where
  "utcMonth =
     mkInterval (\<lambda>t. makeDate (getFullYear t) (getMonth t) 1 0)
       (\<lambda>t n. makeDate (getFullYear t) (getMonth t + n) (getDate t) (t mod msPerDay))
       (\<lambda>a b. getMonth b - getMonth a + (getFullYear b - getFullYear a) * 12)"

definition utcYear :: time_interval where
  "utcYear =
     mkInterval (\<lambda>t. makeDate (getFullYear t) 0 1 0)
       (\<lambda>t n. makeDate (getFullYear t + n) (getMonth t) (getDate t) (t mod msPerDay))
       (\<lambda>a b. getFullYear b - getFullYear a)"

text \<open>
  \<open>timeYear.every(k)\<close>: years that are multiples of \<open>k\<close>. d3 gives this interval
  no \<open>count\<close> and the program never calls it; here it counts the multiples of \<open>k\<close>.
\<close>

definition utcYearEvery :: "int \<Rightarrow> time_interval" where
  "utcYearEvery k =
     mkInterval (\<lambda>t. makeDate (getFullYear t div k * k) 0 1 0)
       (\<lambda>t n. makeDate (getFullYear t + n * k) (getMonth t) (getDate t) (t mod msPerDay))
       (\<lambda>a b. (getFullYear b - getFullYear a) div k)"

definition utc_d3 :: d3_time where
  "utc_d3 =
     \<lparr>timeYear = utcYear,
      timeYear_every = utcYearEvery,
      timeMonth = utcMonth,
      timeWeek = utcWeek,
      timeDay = fixedInterval msPerDay,
      timeHour = fixedInterval 3600000,
      timeMinute = fixedInterval 60000,
      timeSecond = fixedInterval 1000\<rparr>"

text \<open>
  A linear scale over the domain \<open>[s, e)\<close> with a range of \<open>w\<close> pixels, whose tick
  generator returns the given ticks.
\<close>

definition linearScale :: "instant \<Rightarrow> instant \<Rightarrow> real \<Rightarrow> instant list \<Rightarrow> xscale" where
  "linearScale s e w ts =
     \<lparr>xs_domain = Some [Date s, Date e],
      xs_ticks = (\<lambda>n. Some ts),
      xs_px = (\<lambda>t. real_of_int (t - s) * w / real_of_int (e - s))\<rparr>"

section \<open>Notions of the specification\<close>


text \<open>
  The order in which closest-unit inference lists its candidates, and what it means
  for the candidate at position \<open>i\<close> to be the closest to an observed spacing \<open>d\<close>:
  no candidate has a smaller absolute difference of its expected duration from \<open>d\<close>,
  and every earlier candidate has a strictly larger one.
\<close>

definition CANDIDATE_ORDER :: "string list" where
  "CANDIDATE_ORDER =
     [''millennium'', ''decades'', ''years'', ''months'', ''weeks'', ''days'', ''hours'',
      ''minutes'', ''seconds'', ''milliseconds'']"

definition closestAt :: "int \<Rightarrow> candidate list \<Rightarrow> nat \<Rightarrow> bool" where
  "closestAt d cs i \<longleftrightarrow>
     i < length cs
     \<and> (\<forall>j < length cs. \<bar>expectedDuration (cs ! i) - d\<bar> \<le> \<bar>expectedDuration (cs ! j) - d\<bar>)
     \<and> (\<forall>j < i. \<bar>expectedDuration (cs ! i) - d\<bar> < \<bar>expectedDuration (cs ! j) - d\<bar>)"

text \<open>
  A malformed domain: missing, with fewer than two values, or with a bound that is not
  a valid instant.
\<close>

definition malformed :: "jsval list option \<Rightarrow> bool" where
  "malformed domain \<longleftrightarrow>
     domain = None
     \<or> (\<exists>xs. domain = Some xs
           \<and> (length xs < 2 \<or> \<not> isValidDate (xs ! 0) \<or> \<not> isValidDate (xs ! 1)))"





section \<open>Domain validation\<close>

lemma isValidDate_iff: "isValidDate v \<longleftrightarrow> (\<exists>t. v = Date t)"
  by (cases v) simp_all

lemma validateDomain_None_iff: "validateDomain domain = None \<longleftrightarrow> malformed domain"
  by (auto simp: validateDomain_def malformed_def isValidDate_iff
        split: option.splits jsval.splits)

text \<open>
  Claim C1, as amended. \<open>validateDomain\<close> accepts a domain if and only if it supplies at
  least two bounds and the first two are valid instants; the result then holds these
  two instants. The order of the two bounds is not examined.
\<close>

theorem validateDomain_accepts_iff:
  "(validateDomain domain = Some di \<longleftrightarrow>
      (\<exists>xs. domain = Some xs \<and> 2 \<le> length xs \<and>
            xs ! 0 = Date (dstart di) \<and> xs ! 1 = Date (dend di)))
   \<and> (validateDomain domain \<noteq> None \<longleftrightarrow>
      (\<exists>xs. domain = Some xs \<and> 2 \<le> length xs \<and>
            isValidDate (xs ! 0) \<and> isValidDate (xs ! 1)))"
  by (cases di) (auto simp: validateDomain_def isValidDate_iff split: option.splits jsval.splits)

theorem validateDomain_accepts_iff_witness:
  "validateDomain (Some [Date 0, Date 5]) = Some \<lparr>dstart = 0, dend = 5\<rparr>
   \<and> validateDomain (Some [Date 0, Date 5]) \<noteq> None"
  using validateDomain_accepts_iff [of "Some [Date 0, Date 5]" "\<lparr>dstart = 0, dend = 5\<rparr>"]
  by simp

text \<open>
  Claim C1 as stated fails: a domain whose start lies after its end, both valid
  instants, is accepted.
\<close>

theorem validateDomain_order_counterexample:
  "\<not> ((10::int) < 5) \<and> isValidDate (Date 10) \<and> isValidDate (Date 5)
   \<and> validateDomain (Some [Date 10, Date 5]) = Some \<lparr>dstart = 10, dend = 5\<rparr>"
  by (simp add: validateDomain_def)

section \<open>Aggregation\<close>















section \<open>Evaluating the concrete calendar\<close>

text \<open>
  The definitions of the calendar, and the operations of its intervals applied to
  their arguments, as rewrite rules: with them the simplifier evaluates a concrete
  instant from the inside out.
\<close>

lemmas cal_defs = days_from_march_year_def days_from_civil_def year_of_era_def day_of_year_def
  march_month_def march_date_def civil_from_days_def msPerDay_def getFullYear_def getMonth_def
  getDate_def makeDate_def

lemma utc_d3_sel:
  "timeYear utc_d3 = utcYear"
  "timeYear_every utc_d3 = utcYearEvery"
  "timeMonth utc_d3 = utcMonth"
  "timeWeek utc_d3 = utcWeek"
  "timeDay utc_d3 = fixedInterval msPerDay"
  "timeHour utc_d3 = fixedInterval 3600000"
  "timeMinute utc_d3 = fixedInterval 60000"
  "timeSecond utc_d3 = fixedInterval 1000"
  by (simp_all add: utc_d3_def)

lemma utcYear_simps:
  "floor_iv utcYear t = makeDate (getFullYear t) 0 1 0"
  "offset_iv utcYear t n = makeDate (getFullYear t + n) (getMonth t) (getDate t) (t mod msPerDay)"
  "count_iv utcYear a b = getFullYear (floor_iv utcYear b) - getFullYear (floor_iv utcYear a)"
  "ceil_iv utcYear t = floor_iv utcYear (offset_iv utcYear (floor_iv utcYear (t - 1)) 1)"
  by (simp_all add: utcYear_def mkInterval_def)

lemma utcYearEvery_simps:
  "floor_iv (utcYearEvery k) t = makeDate (getFullYear t div k * k) 0 1 0"
  "offset_iv (utcYearEvery k) t n
     = makeDate (getFullYear t + n * k) (getMonth t) (getDate t) (t mod msPerDay)"
  "ceil_iv (utcYearEvery k) t
     = floor_iv (utcYearEvery k) (offset_iv (utcYearEvery k) (floor_iv (utcYearEvery k) (t - 1)) 1)"
  by (simp_all add: utcYearEvery_def mkInterval_def)

lemma utcMonth_simps:
  "floor_iv utcMonth t = makeDate (getFullYear t) (getMonth t) 1 0"
  "offset_iv utcMonth t n = makeDate (getFullYear t) (getMonth t + n) (getDate t) (t mod msPerDay)"
  "count_iv utcMonth a b
     = getMonth (floor_iv utcMonth b) - getMonth (floor_iv utcMonth a)
       + (getFullYear (floor_iv utcMonth b) - getFullYear (floor_iv utcMonth a)) * 12"
  "ceil_iv utcMonth t = floor_iv utcMonth (offset_iv utcMonth (floor_iv utcMonth (t - 1)) 1)"
  by (simp_all add: utcMonth_def mkInterval_def)

lemma utcWeek_simps:
  "floor_iv utcWeek t = (t div msPerDay - (t div msPerDay + 4) mod 7) * msPerDay"
  "offset_iv utcWeek t n = t + n * 7 * msPerDay"
  "count_iv utcWeek a b = (floor_iv utcWeek b - floor_iv utcWeek a) div (7 * msPerDay)"
  "ceil_iv utcWeek t = floor_iv utcWeek (offset_iv utcWeek (floor_iv utcWeek (t - 1)) 1)"
  by (simp_all add: utcWeek_def mkInterval_def)

lemma fixedInterval_simps:
  "floor_iv (fixedInterval len) t = t - t mod len"
  "offset_iv (fixedInterval len) t n = t + n * len"
  "count_iv (fixedInterval len) a b
     = (floor_iv (fixedInterval len) b - floor_iv (fixedInterval len) a) div len"
  "ceil_iv (fixedInterval len) t
     = floor_iv (fixedInterval len)
         (offset_iv (fixedInterval len) (floor_iv (fixedInterval len) (t - 1)) 1)"
  by (simp_all add: fixedInterval_def mkInterval_def)

lemmas utc_eval = utc_d3_sel utcYear_simps utcYearEvery_simps utcMonth_simps utcWeek_simps
  fixedInterval_simps cal_defs

section \<open>Closest-unit inference\<close>

lemma candidates_unfold:
  "candidates d3 tick1 tick2 =
     (if count_iv (timeYear d3) tick1 tick2 \<ge> 1000
      then [\<lparr>scale = ''millennium'',
             expectedDuration = offset_iv (timeYear d3) tick1 (count_iv (timeYear d3) tick1 tick2) - tick1,
             cand_count = count_iv (timeYear d3) tick1 tick2 div 1000\<rparr>]
      else [])
   @ (if count_iv (timeYear d3) tick1 tick2 \<ge> 10
      then [\<lparr>scale = ''decades'',
             expectedDuration = offset_iv (timeYear d3) tick1 (count_iv (timeYear d3) tick1 tick2) - tick1,
             cand_count = count_iv (timeYear d3) tick1 tick2 div 10\<rparr>]
      else [])
   @ concat (map (\<lambda>(s, iv).
        if count_iv iv tick1 tick2 \<ge> 1
        then [\<lparr>scale = s,
               expectedDuration = offset_iv iv tick1 (count_iv iv tick1 tick2) - tick1,
               cand_count = count_iv iv tick1 tick2\<rparr>]
        else [])
      [(''years'', timeYear d3), (''months'', timeMonth d3), (''weeks'', timeWeek d3),
       (''days'', timeDay d3), (''hours'', timeHour d3), (''minutes'', timeMinute d3),
       (''seconds'', timeSecond d3)])
   @ [\<lparr>scale = ''milliseconds'', expectedDuration = tick2 - tick1, cand_count = 1\<rparr>]"
  by (simp add: candidates_def Let_def)

text \<open>
  Claim C3, as amended. Every candidate of the units years, months, weeks, days, hours,
  minutes and seconds carries the count of its unit between the two ticks, which is at
  least 1, and its expected duration is the time elapsed when \<open>tick1\<close> is advanced by
  that count of the unit. The candidates millennium and decades are present only from
  a year count of 1000 and of 10; their count is the year count divided by 1000 and by
  10, rounded down, and their expected duration is the time elapsed when \<open>tick1\<close> is
  advanced by the whole year count in years.
\<close>

theorem candidates_expected_duration:
  "\<forall>c \<in> set (candidates d3 tick1 tick2).
     (scale c \<in> set [''years'', ''months'', ''weeks'', ''days'', ''hours'', ''minutes'', ''seconds''] \<longrightarrow>
        cand_count c = count_iv (getD3TimeInterval d3 (scale c)) tick1 tick2 \<and>
        1 \<le> cand_count c \<and>
        expectedDuration c = offset_iv (getD3TimeInterval d3 (scale c)) tick1 (cand_count c) - tick1)
   \<and> (scale c = ''millennium'' \<longrightarrow>
        1000 \<le> count_iv (timeYear d3) tick1 tick2 \<and>
        cand_count c = count_iv (timeYear d3) tick1 tick2 div 1000 \<and>
        expectedDuration c = offset_iv (timeYear d3) tick1 (count_iv (timeYear d3) tick1 tick2) - tick1)
   \<and> (scale c = ''decades'' \<longrightarrow>
        10 \<le> count_iv (timeYear d3) tick1 tick2 \<and>
        cand_count c = count_iv (timeYear d3) tick1 tick2 div 10 \<and>
        expectedDuration c = offset_iv (timeYear d3) tick1 (count_iv (timeYear d3) tick1 tick2) - tick1)"
  by (auto simp: candidates_unfold getD3TimeInterval_def split: if_splits)


lemma pickStep_fold:
  "cs \<noteq> [] \<Longrightarrow>
     \<exists>i. closestAt d cs i \<and>
         fold (pickStep d) cs (s0, None)
           = (scale (cs ! i), Some \<bar>expectedDuration (cs ! i) - d\<bar>)"
proof (induction cs rule: rev_induct)
  case Nil
  then show ?case by simp
next
  case (snoc c cs)
  show ?case
  proof (cases "cs = []")
    case True
    then have "closestAt d (cs @ [c]) 0" by (simp add: closestAt_def)
    moreover have "fold (pickStep d) (cs @ [c]) (s0, None)
        = (scale ((cs @ [c]) ! 0), Some \<bar>expectedDuration ((cs @ [c]) ! 0) - d\<bar>)"
      using True by (simp add: pickStep_def)
    ultimately show ?thesis by blast
  next
    case False
    with snoc.IH obtain i where i: "closestAt d cs i"
      and f: "fold (pickStep d) cs (s0, None)
                = (scale (cs ! i), Some \<bar>expectedDuration (cs ! i) - d\<bar>)"
      by blast
    let ?m = "\<bar>expectedDuration (cs ! i) - d\<bar>"
    let ?n = "\<bar>expectedDuration c - d\<bar>"
    from i have il: "i < length cs"
      and imin: "\<And>j. j < length cs \<Longrightarrow> ?m \<le> \<bar>expectedDuration (cs ! j) - d\<bar>"
      and ifirst: "\<And>j. j < i \<Longrightarrow> ?m < \<bar>expectedDuration (cs ! j) - d\<bar>"
      by (auto simp: closestAt_def)
    show ?thesis
    proof (cases "?n < ?m")
      case True
      have "closestAt d (cs @ [c]) (length cs)"
        unfolding closestAt_def
      proof (intro conjI allI impI)
        show "length cs < length (cs @ [c])" by simp
      next
        fix j assume "j < length (cs @ [c])"
        then show "\<bar>expectedDuration ((cs @ [c]) ! length cs) - d\<bar>
                     \<le> \<bar>expectedDuration ((cs @ [c]) ! j) - d\<bar>"
          using True imin [of j] by (cases "j < length cs") (auto simp: nth_append)
      next
        fix j assume "j < length cs"
        then show "\<bar>expectedDuration ((cs @ [c]) ! length cs) - d\<bar>
                     < \<bar>expectedDuration ((cs @ [c]) ! j) - d\<bar>"
          using True imin [of j] by (auto simp: nth_append)
      qed
      moreover have "fold (pickStep d) (cs @ [c]) (s0, None)
          = (scale ((cs @ [c]) ! length cs),
             Some \<bar>expectedDuration ((cs @ [c]) ! length cs) - d\<bar>)"
        using True f by (simp add: pickStep_def)
      ultimately show ?thesis by blast
    next
      case False
      have "closestAt d (cs @ [c]) i"
        unfolding closestAt_def
      proof (intro conjI allI impI)
        show "i < length (cs @ [c])" using il by simp
      next
        fix j assume "j < length (cs @ [c])"
        then show "\<bar>expectedDuration ((cs @ [c]) ! i) - d\<bar>
                     \<le> \<bar>expectedDuration ((cs @ [c]) ! j) - d\<bar>"
          using False il imin [of j] by (cases "j < length cs") (auto simp: nth_append)
      next
        fix j assume "j < i"
        then show "\<bar>expectedDuration ((cs @ [c]) ! i) - d\<bar>
                     < \<bar>expectedDuration ((cs @ [c]) ! j) - d\<bar>"
          using il ifirst [of j] by (auto simp: nth_append)
      qed
      moreover have "fold (pickStep d) (cs @ [c]) (s0, None)
          = (scale ((cs @ [c]) ! i), Some \<bar>expectedDuration ((cs @ [c]) ! i) - d\<bar>)"
        using False f il by (simp add: pickStep_def nth_append)
      ultimately show ?thesis by blast
    qed
  qed
qed

lemma subseq_member:
  assumes "subseq xs ys" and "x \<in> set xs"
  shows "x \<in> set ys"
  by (rule list_emb_set [OF assms]) simp

lemma subseq_optional: "subseq ys zs \<Longrightarrow> subseq ((if b then [x] else []) @ ys) (x # zs)"
  by (cases b) (auto intro: list_emb.intros)

lemma candidates_order: "subseq (map scale (candidates d3 tick1 tick2)) CANDIDATE_ORDER"
proof -
  have e: "subseq [''milliseconds''] [''milliseconds'']" by simp
  show ?thesis
    unfolding candidates_def Let_def CANDIDATE_ORDER_def map_append if_distrib [of "map scale"]
      list.map candidate.simps
    by (intro subseq_optional e)
qed

lemma candidates_last:
  "last (candidates d3 tick1 tick2)
     = \<lparr>scale = ''milliseconds'', expectedDuration = tick2 - tick1, cand_count = 1\<rparr>"
  by (simp add: candidates_def Let_def)

lemma candidates_nonempty: "candidates d3 tick1 tick2 \<noteq> []"
  by (simp add: candidates_def Let_def)

lemma detectTickScaleFromTicks_pick:
  assumes "2 \<le> length sampleTicks"
  shows "\<exists>i. closestAt (sampleTicks ! 1 - sampleTicks ! 0)
              (candidates d3 (sampleTicks ! 0) (sampleTicks ! 1)) i
            \<and> detectTickScaleFromTicks d3 sampleTicks
                = scale (candidates d3 (sampleTicks ! 0) (sampleTicks ! 1) ! i)"
proof -
  let ?cs = "candidates d3 (sampleTicks ! 0) (sampleTicks ! 1)"
  let ?d = "sampleTicks ! 1 - sampleTicks ! 0"
  from pickStep_fold [OF candidates_nonempty, of ?d d3 "sampleTicks ! 0" "sampleTicks ! 1" "''milliseconds''"]
  obtain i where i: "closestAt ?d ?cs i"
    and f: "fold (pickStep ?d) ?cs (''milliseconds'', None)
              = (scale (?cs ! i), Some \<bar>expectedDuration (?cs ! i) - ?d\<bar>)"
    by blast
  have "detectTickScaleFromTicks d3 sampleTicks = scale (?cs ! i)"
    using assms f by (simp add: detectTickScaleFromTicks_def Let_def)
  with i show ?thesis by blast
qed

lemma detectTickScaleFromTicks_known:
  "detectTickScaleFromTicks d3 sampleTicks \<in> set CANDIDATE_ORDER"
proof (cases "2 \<le> length sampleTicks")
  case True
  let ?cs = "candidates d3 (sampleTicks ! 0) (sampleTicks ! 1)"
  from detectTickScaleFromTicks_pick [OF True, of d3]
  obtain i where i: "closestAt (sampleTicks ! 1 - sampleTicks ! 0) ?cs i"
    and r: "detectTickScaleFromTicks d3 sampleTicks = scale (?cs ! i)"
    by blast
  have "i < length ?cs" using i by (simp add: closestAt_def)
  then have "scale (?cs ! i) \<in> set (map scale ?cs)" by simp
  with candidates_order [of d3 "sampleTicks ! 0" "sampleTicks ! 1"]
  have "scale (?cs ! i) \<in> set CANDIDATE_ORDER"
    by (rule subseq_member)
  with r show ?thesis by simp
next
  case False
  then show ?thesis
    by (simp add: detectTickScaleFromTicks_def CANDIDATE_ORDER_def)
qed

text \<open>
  Claim C4. For at least two ticks, \<open>detectTickScaleFromTicks\<close> returns the scale of the
  candidate closest to the observed spacing of the first two ticks, the earliest one
  among equally close candidates; the candidates come in the fixed order from
  millennium to milliseconds; the last one is always milliseconds, with the observed
  spacing as its expected duration; and the result is one of the ten scales.
\<close>

theorem detectTickScaleFromTicks_closest:
  assumes "2 \<le> length sampleTicks"
  shows "(\<exists>i. closestAt (sampleTicks ! 1 - sampleTicks ! 0)
              (candidates d3 (sampleTicks ! 0) (sampleTicks ! 1)) i
            \<and> detectTickScaleFromTicks d3 sampleTicks
                = scale (candidates d3 (sampleTicks ! 0) (sampleTicks ! 1) ! i))
       \<and> subseq (map scale (candidates d3 (sampleTicks ! 0) (sampleTicks ! 1))) CANDIDATE_ORDER
       \<and> last (candidates d3 (sampleTicks ! 0) (sampleTicks ! 1))
           = \<lparr>scale = ''milliseconds'',
              expectedDuration = sampleTicks ! 1 - sampleTicks ! 0, cand_count = 1\<rparr>
       \<and> detectTickScaleFromTicks d3 sampleTicks \<in> set CANDIDATE_ORDER"
  using detectTickScaleFromTicks_pick [OF assms] candidates_order candidates_last
    detectTickScaleFromTicks_known
  by blast

lemma decades_candidate:
  "10 \<le> count_iv (timeYear d3) tick1 tick2 \<Longrightarrow>
     \<lparr>scale = ''decades'',
      expectedDuration = offset_iv (timeYear d3) tick1 (count_iv (timeYear d3) tick1 tick2) - tick1,
      cand_count = count_iv (timeYear d3) tick1 tick2 div 10\<rparr>
       \<in> set (candidates d3 tick1 tick2)"
  by (simp add: candidates_def Let_def)

lemma yearCount_2000_2015: "count_iv (timeYear utc_d3) 946684800000 1420070400000 = 15"
  by (simp add: utc_eval)

lemma yearOffset_2000_15: "offset_iv (timeYear utc_d3) 946684800000 15 = 1420070400000"
  by (simp add: utc_eval)

lemma decadeOffset_2000_1:
  "offset_iv (getD3TimeInterval utc_d3 ''decades'') 946684800000 1 = 1262304000000"
  by (simp add: getD3TimeInterval_def utc_eval)

text \<open>
  Claim C3 as stated fails for decades: between 2000-01-01 and 2015-01-01 (UTC) the
  year count is 15, the decades candidate has count 1 and the expected duration of 15
  years (473385600000 ms), while advancing the first tick by one decade takes
  315619200000 ms.
\<close>

theorem decades_expected_duration_counterexample:
  "\<lparr>scale = ''decades'', expectedDuration = 473385600000, cand_count = 1\<rparr>
     \<in> set (candidates utc_d3 946684800000 1420070400000)
   \<and> offset_iv (getD3TimeInterval utc_d3 ''decades'') 946684800000 1 - 946684800000
       = 315619200000"
  using decades_candidate [of utc_d3 946684800000 1420070400000]
  by (simp add: yearCount_2000_2015 yearOffset_2000_15 decadeOffset_2000_1)

lemma counts_2020_2021:
  "count_iv (timeYear utc_d3) 1577836800000 1609459200000 = 1"
  "count_iv (timeMonth utc_d3) 1577836800000 1609459200000 = 12"
  "count_iv (timeWeek utc_d3) 1577836800000 1609459200000 = 52"
  "count_iv (timeDay utc_d3) 1577836800000 1609459200000 = 366"
  "count_iv (timeHour utc_d3) 1577836800000 1609459200000 = 8784"
  "count_iv (timeMinute utc_d3) 1577836800000 1609459200000 = 527040"
  "count_iv (timeSecond utc_d3) 1577836800000 1609459200000 = 31622400"
  by (simp_all add: utc_eval)

lemma offsets_2020_2021:
  "offset_iv (timeYear utc_d3) 1577836800000 1 = 1609459200000"
  "offset_iv (timeMonth utc_d3) 1577836800000 12 = 1609459200000"
  "offset_iv (timeWeek utc_d3) 1577836800000 52 = 1609286400000"
  "offset_iv (timeDay utc_d3) 1577836800000 366 = 1609459200000"
  "offset_iv (timeHour utc_d3) 1577836800000 8784 = 1609459200000"
  "offset_iv (timeMinute utc_d3) 1577836800000 527040 = 1609459200000"
  "offset_iv (timeSecond utc_d3) 1577836800000 31622400 = 1609459200000"
  by (simp_all add: utc_eval)

lemma candidates_2020_2021:
  "candidates utc_d3 1577836800000 1609459200000 =
     [\<lparr>scale = ''years'', expectedDuration = 31622400000, cand_count = 1\<rparr>,
      \<lparr>scale = ''months'', expectedDuration = 31622400000, cand_count = 12\<rparr>,
      \<lparr>scale = ''weeks'', expectedDuration = 31449600000, cand_count = 52\<rparr>,
      \<lparr>scale = ''days'', expectedDuration = 31622400000, cand_count = 366\<rparr>,
      \<lparr>scale = ''hours'', expectedDuration = 31622400000, cand_count = 8784\<rparr>,
      \<lparr>scale = ''minutes'', expectedDuration = 31622400000, cand_count = 527040\<rparr>,
      \<lparr>scale = ''seconds'', expectedDuration = 31622400000, cand_count = 31622400\<rparr>,
      \<lparr>scale = ''milliseconds'', expectedDuration = 31622400000, cand_count = 1\<rparr>]"
  by (simp add: candidates_unfold counts_2020_2021 offsets_2020_2021)

lemma detect_2020_2021:
  "detectTickScaleFromTicks utc_d3 [1577836800000, 1609459200000] = ''years''"
  by (simp add: detectTickScaleFromTicks_def candidates_2020_2021 pickStep_def)

theorem candidates_expected_duration_witness:
  "\<lparr>scale = ''weeks'', expectedDuration = 31449600000, cand_count = 52\<rparr>
     \<in> set (candidates utc_d3 1577836800000 1609459200000)
   \<and> count_iv (getD3TimeInterval utc_d3 ''weeks'') 1577836800000 1609459200000 = 52
   \<and> offset_iv (getD3TimeInterval utc_d3 ''weeks'') 1577836800000 52 - 1577836800000
       = 31449600000"
proof -
  have m: "\<lparr>scale = ''weeks'', expectedDuration = 31449600000, cand_count = 52\<rparr>
     \<in> set (candidates utc_d3 1577836800000 1609459200000)"
    by (simp add: candidates_2020_2021)
  from bspec [OF candidates_expected_duration m] m show ?thesis by simp
qed

theorem detectTickScaleFromTicks_closest_witness:
  "2 \<le> length [1577836800000, 1609459200000 :: int]
   \<and> detectTickScaleFromTicks utc_d3 [1577836800000, 1609459200000] = ''years''
   \<and> detectTickScaleFromTicks utc_d3 [1577836800000, 1609459200000] \<in> set CANDIDATE_ORDER
   \<and> (\<exists>i. closestAt (1609459200000 - 1577836800000)
              (candidates utc_d3 1577836800000 1609459200000) i
          \<and> scale (candidates utc_d3 1577836800000 1609459200000 ! i) = ''years'')"
  using detectTickScaleFromTicks_closest [of "[1577836800000, 1609459200000]" utc_d3]
  by (auto simp: detect_2020_2021)

section \<open>From tick granularity to bucket granularity\<close>

lemma detectTickScaleFromDuration_known:
  "detectTickScaleFromDuration duration \<in> set CANDIDATE_ORDER"
  by (simp add: detectTickScaleFromDuration_def CANDIDATE_ORDER_def Let_def)

lemma bucket_table:
  "map (map_of BUCKET_SCALE_MAP) CANDIDATE_ORDER
     = map Some [''decades'', ''years'', ''months'', ''weeks'', ''days'', ''hours'', ''minutes'',
                 ''seconds'', ''milliseconds'', ''milliseconds'']"
  by (simp add: BUCKET_SCALE_MAP_def CANDIDATE_ORDER_def)

lemma bucket_table_total:
  "s \<in> set CANDIDATE_ORDER \<Longrightarrow> \<exists>b. map_of BUCKET_SCALE_MAP s = Some b"
  by (auto simp: BUCKET_SCALE_MAP_def CANDIDATE_ORDER_def)

lemma getTimeScale_unrefined:
  fixes d3 :: d3_time and numberDisplayedTicks :: "(string \<rightharpoonup> int) option"
    and breakpointLabel :: "string option"
  assumes "validateDomain (xs_domain xScale) = Some di"
    and "bucketSize = None \<or> (\<exists>bs. bucketSize = Some bs \<and> minWidth bs = None \<and> maxWidth bs = None)"
  shows "map_of BUCKET_SCALE_MAP
           (case xs_ticks xScale (tickCountOf numberDisplayedTicks breakpointLabel) of
              None \<Rightarrow> detectTickScaleFromDuration (dend di - dstart di)
            | Some ts \<Rightarrow> if length ts < 2 then detectTickScaleFromDuration (dend di - dstart di)
                         else detectTickScaleFromTicks d3 ts)
         = Some (getTimeScale d3 xScale numberDisplayedTicks breakpointLabel bucketSize)"
proof -
  let ?t = "case xs_ticks xScale (tickCountOf numberDisplayedTicks breakpointLabel) of
              None \<Rightarrow> detectTickScaleFromDuration (dend di - dstart di)
            | Some ts \<Rightarrow> if length ts < 2 then detectTickScaleFromDuration (dend di - dstart di)
                         else detectTickScaleFromTicks d3 ts"
  have "?t \<in> set CANDIDATE_ORDER"
    by (simp add: detectTickScaleFromDuration_known detectTickScaleFromTicks_known
          split: option.splits)
  then obtain b where b: "map_of BUCKET_SCALE_MAP ?t = Some b"
    using bucket_table_total by blast
  have "getTimeScale d3 xScale numberDisplayedTicks breakpointLabel bucketSize = b"
    using assms b by (auto simp: getTimeScale_def Let_def split: option.splits)
  with b show ?thesis by simp
qed

text \<open>
  Claim C6. The table sends millennium to decades, decades to years, years to months,
  months to weeks, weeks to days, days to hours, hours to minutes, minutes to seconds,
  and seconds and milliseconds to milliseconds. For a valid domain and no size
  constraint, \<open>getTimeScale\<close> returns the table's entry for the detected tick
  granularity, whether that was detected from two or more sampled ticks or from the
  duration of the domain; ticks detected as years yield months, and ticks detected as
  milliseconds yield milliseconds.
\<close>

theorem getTimeScale_bucket_table:
  fixes d3 :: d3_time and numberDisplayedTicks :: "(string \<rightharpoonup> int) option"
    and breakpointLabel :: "string option"
  assumes "validateDomain (xs_domain xScale) = Some di"
    and "bucketSize = None \<or> (\<exists>bs. bucketSize = Some bs \<and> minWidth bs = None \<and> maxWidth bs = None)"
  shows "map (map_of BUCKET_SCALE_MAP) CANDIDATE_ORDER
           = map Some [''decades'', ''years'', ''months'', ''weeks'', ''days'', ''hours'',
                       ''minutes'', ''seconds'', ''milliseconds'', ''milliseconds'']
       \<and> (\<forall>ts. xs_ticks xScale (tickCountOf numberDisplayedTicks breakpointLabel) = Some ts
                \<and> 2 \<le> length ts \<longrightarrow>
              map_of BUCKET_SCALE_MAP (detectTickScaleFromTicks d3 ts)
                = Some (getTimeScale d3 xScale numberDisplayedTicks breakpointLabel bucketSize)
            \<and> (detectTickScaleFromTicks d3 ts = ''years'' \<longrightarrow>
                  getTimeScale d3 xScale numberDisplayedTicks breakpointLabel bucketSize = ''months'')
            \<and> (detectTickScaleFromTicks d3 ts = ''milliseconds'' \<longrightarrow>
                  getTimeScale d3 xScale numberDisplayedTicks breakpointLabel bucketSize
                    = ''milliseconds''))
       \<and> (xs_ticks xScale (tickCountOf numberDisplayedTicks breakpointLabel) = None
            \<or> (\<exists>ts. xs_ticks xScale (tickCountOf numberDisplayedTicks breakpointLabel) = Some ts
                    \<and> length ts < 2) \<longrightarrow>
              map_of BUCKET_SCALE_MAP (detectTickScaleFromDuration (dend di - dstart di))
                = Some (getTimeScale d3 xScale numberDisplayedTicks breakpointLabel bucketSize))"
proof (intro conjI allI impI)
  show "map (map_of BUCKET_SCALE_MAP) CANDIDATE_ORDER
           = map Some [''decades'', ''years'', ''months'', ''weeks'', ''days'', ''hours'',
                       ''minutes'', ''seconds'', ''milliseconds'', ''milliseconds'']"
    by (rule bucket_table)
next
  fix ts
  assume t: "xs_ticks xScale (tickCountOf numberDisplayedTicks breakpointLabel) = Some ts
               \<and> 2 \<le> length ts"
  with getTimeScale_unrefined [OF assms, of d3 numberDisplayedTicks breakpointLabel]
  show m: "map_of BUCKET_SCALE_MAP (detectTickScaleFromTicks d3 ts)
         = Some (getTimeScale d3 xScale numberDisplayedTicks breakpointLabel bucketSize)"
    by simp
  { assume "detectTickScaleFromTicks d3 ts = ''years''"
    with m show "getTimeScale d3 xScale numberDisplayedTicks breakpointLabel bucketSize = ''months''"
      by (simp add: BUCKET_SCALE_MAP_def) }
  { assume "detectTickScaleFromTicks d3 ts = ''milliseconds''"
    with m show "getTimeScale d3 xScale numberDisplayedTicks breakpointLabel bucketSize
                   = ''milliseconds''"
      by (simp add: BUCKET_SCALE_MAP_def) }
next
  assume "xs_ticks xScale (tickCountOf numberDisplayedTicks breakpointLabel) = None
            \<or> (\<exists>ts. xs_ticks xScale (tickCountOf numberDisplayedTicks breakpointLabel) = Some ts
                    \<and> length ts < 2)"
  with getTimeScale_unrefined [OF assms, of d3 numberDisplayedTicks breakpointLabel]
  show "map_of BUCKET_SCALE_MAP (detectTickScaleFromDuration (dend di - dstart di))
          = Some (getTimeScale d3 xScale numberDisplayedTicks breakpointLabel bucketSize)"
    by auto
qed

lemma linearScale_sel:
  "xs_domain (linearScale s e w ts) = Some [Date s, Date e]"
  "xs_ticks (linearScale s e w ts) n = Some ts"
  "xs_px (linearScale s e w ts) t = real_of_int (t - s) * w / real_of_int (e - s)"
  by (simp_all add: linearScale_def)

lemma linearScale_valid:
  "validateDomain (xs_domain (linearScale s e w ts)) = Some \<lparr>dstart = s, dend = e\<rparr>"
  by (simp add: linearScale_def validateDomain_def)

theorem getTimeScale_bucket_table_witness:
  "validateDomain (xs_domain (linearScale 1577836800000 1609459200000 700
       [1577836800000, 1609459200000]))
     = Some \<lparr>dstart = 1577836800000, dend = 1609459200000\<rparr>
   \<and> detectTickScaleFromTicks utc_d3 [1577836800000, 1609459200000] = ''years''
   \<and> getTimeScale utc_d3
        (linearScale 1577836800000 1609459200000 700 [1577836800000, 1609459200000])
        None None None = ''months''"
proof -
  let ?x = "linearScale 1577836800000 1609459200000 700 [1577836800000, 1609459200000]"
  have d: "validateDomain (xs_domain ?x) = Some \<lparr>dstart = 1577836800000, dend = 1609459200000\<rparr>"
    by (rule linearScale_valid)
  have n: "(None :: bucket_size option) = None
             \<or> (\<exists>bs. (None :: bucket_size option) = Some bs \<and> minWidth bs = None \<and> maxWidth bs = None)"
    by simp
  from getTimeScale_bucket_table [OF d n, of None None utc_d3] d show ?thesis
    by (simp add: linearScale_sel detect_2020_2021)
qed

section \<open>Malformed domains, the millisecond interval and the heatmap decision\<close>

text \<open>
  Claim C7. For every malformed domain (missing, fewer than two values, or a bound that
  is not a valid instant), \<open>getTimeScale\<close> returns \<open>days\<close> and \<open>aggregateEvents\<close>
  returns the empty sequence, whatever their other arguments are. Both return right
  after the validation, before either calls the tick generator, the pixel scale, the
  interval or the accessor, so neither has an error to raise.
\<close>

theorem malformed_domain_defaults:
  assumes "malformed (xs_domain xScale)"
  shows "getTimeScale d3 xScale numberDisplayedTicks breakpointLabel bucketSize = ''days''
       \<and> aggregateEvents xScale dropDate evs timeInterval = []"
proof -
  from assms have "validateDomain (xs_domain xScale) = None"
    by (simp add: validateDomain_None_iff)
  then show ?thesis
    by (simp add: getTimeScale_def aggregateEvents_def)
qed

theorem malformed_domain_defaults_witness:
  "malformed (xs_domain \<lparr>xs_domain = None, xs_ticks = (\<lambda>n. None), xs_px = (\<lambda>t. 0)\<rparr>)
   \<and> malformed (xs_domain \<lparr>xs_domain = Some [Date 5], xs_ticks = (\<lambda>n. None), xs_px = (\<lambda>t. 0)\<rparr>)
   \<and> malformed (xs_domain \<lparr>xs_domain = Some [Date 5, InvalidDate], xs_ticks = (\<lambda>n. None),
                              xs_px = (\<lambda>t. 0)\<rparr>)
   \<and> getTimeScale utc_d3 \<lparr>xs_domain = Some [Date 5, InvalidDate], xs_ticks = (\<lambda>n. None),
                            xs_px = (\<lambda>t. 0)\<rparr> None None None = ''days''
   \<and> aggregateEvents \<lparr>xs_domain = Some [Date 5, InvalidDate], xs_ticks = (\<lambda>n. None),
                        xs_px = (\<lambda>t. 0)\<rparr> id (Some [Date 5, Date 6]) (timeDay utc_d3) = []"
proof -
  have m: "malformed (xs_domain \<lparr>xs_domain = Some [Date 5, InvalidDate], xs_ticks = (\<lambda>n. None),
                              xs_px = (\<lambda>t. 0)\<rparr>)"
    by (simp add: malformed_def)
  from malformed_domain_defaults [OF m] m show ?thesis
    by (simp add: malformed_def)
qed

text \<open>
  Claim C9. \<open>getD3TimeInterval\<close> selects for \<open>milliseconds\<close> the interval it selects for
  \<open>seconds\<close>, the second interval of d3; hence bucket widths and aggregated buckets at
  \<open>milliseconds\<close> coincide with those at \<open>seconds\<close>. A string that is none of the ten
  granularities selects the day interval.
\<close>

theorem milliseconds_interval_is_seconds:
  "getD3TimeInterval d3 ''milliseconds'' = getD3TimeInterval d3 ''seconds''
   \<and> getD3TimeInterval d3 ''seconds'' = timeSecond d3
   \<and> calculateBucketWidth d3 xScale ''milliseconds'' = calculateBucketWidth d3 xScale ''seconds''
   \<and> aggregateEvents xScale dropDate evs (getD3TimeInterval d3 ''milliseconds'')
       = aggregateEvents xScale dropDate evs (getD3TimeInterval d3 ''seconds'')
   \<and> (s \<notin> set CANDIDATE_ORDER \<longrightarrow> getD3TimeInterval d3 s = timeDay d3)"
proof -
  have e: "getD3TimeInterval d3 ''milliseconds'' = getD3TimeInterval d3 ''seconds''"
    by (simp add: getD3TimeInterval_def)
  have w: "calculateBucketWidth d3 xScale ''milliseconds''
             = calculateBucketWidth d3 xScale ''seconds''"
    unfolding calculateBucketWidth_def e ..
  have u: "s \<notin> set CANDIDATE_ORDER \<longrightarrow> getD3TimeInterval d3 s = timeDay d3"
    by (simp add: getD3TimeInterval_def CANDIDATE_ORDER_def)
  have "getD3TimeInterval d3 ''seconds'' = timeSecond d3"
    by (simp add: getD3TimeInterval_def)
  with e w u show ?thesis by simp
qed

theorem milliseconds_interval_is_seconds_witness:
  "''fortnights'' \<notin> set CANDIDATE_ORDER
   \<and> getD3TimeInterval utc_d3 ''fortnights'' = timeDay utc_d3
   \<and> getD3TimeInterval utc_d3 ''milliseconds'' = timeSecond utc_d3"
  using milliseconds_interval_is_seconds
      [of utc_d3 "linearScale 0 1 1 []" "id :: jsval \<Rightarrow> jsval" None "''fortnights''"]
  by (simp add: CANDIDATE_ORDER_def)

text \<open>
  Claim C10. For a malformed domain \<open>shouldUseHeatmap\<close> is false, although
  \<open>getTimeScale\<close> then returns \<open>days\<close>, a member of the enabling set; for a well-formed
  domain it is true exactly when the granularity that \<open>getTimeScale\<close> returns is one
  of days, weeks, months, years and decades.
\<close>

theorem shouldUseHeatmap_cases:
  "(malformed (xs_domain xScale) \<longrightarrow>
      \<not> shouldUseHeatmap d3 xScale numberDisplayedTicks breakpointLabel bucketSize
      \<and> getTimeScale d3 xScale numberDisplayedTicks breakpointLabel bucketSize = ''days''
      \<and> ''days'' \<in> set [''days'', ''weeks'', ''months'', ''years'', ''decades''])
   \<and> (\<not> malformed (xs_domain xScale) \<longrightarrow>
      shouldUseHeatmap d3 xScale numberDisplayedTicks breakpointLabel bucketSize
        = (getTimeScale d3 xScale numberDisplayedTicks breakpointLabel bucketSize
             \<in> set [''days'', ''weeks'', ''months'', ''years'', ''decades'']))"
proof (intro conjI impI)
  assume "malformed (xs_domain xScale)"
  then have n: "validateDomain (xs_domain xScale) = None"
    by (simp add: validateDomain_None_iff)
  then show "\<not> shouldUseHeatmap d3 xScale numberDisplayedTicks breakpointLabel bucketSize"
    by (simp add: shouldUseHeatmap_def)
  from n show "getTimeScale d3 xScale numberDisplayedTicks breakpointLabel bucketSize = ''days''"
    by (simp add: getTimeScale_def)
  show "''days'' \<in> set [''days'', ''weeks'', ''months'', ''years'', ''decades'']" by simp
next
  assume "\<not> malformed (xs_domain xScale)"
  then obtain di where "validateDomain (xs_domain xScale) = Some di"
    using validateDomain_None_iff [of "xs_domain xScale"] by (cases "validateDomain (xs_domain xScale)") auto
  then show "shouldUseHeatmap d3 xScale numberDisplayedTicks breakpointLabel bucketSize
        = (getTimeScale d3 xScale numberDisplayedTicks breakpointLabel bucketSize
             \<in> set [''days'', ''weeks'', ''months'', ''years'', ''decades''])"
    by (simp add: shouldUseHeatmap_def Let_def)
qed

theorem shouldUseHeatmap_cases_witness:
  "malformed (xs_domain \<lparr>xs_domain = Some [NotDate, Date 7], xs_ticks = (\<lambda>n. None), xs_px = (\<lambda>t. 0)\<rparr>)
   \<and> \<not> shouldUseHeatmap utc_d3
         \<lparr>xs_domain = Some [NotDate, Date 7], xs_ticks = (\<lambda>n. None), xs_px = (\<lambda>t. 0)\<rparr>
         None None None
   \<and> \<not> malformed (xs_domain (linearScale 1577836800000 1609459200000 700
                                 [1577836800000, 1609459200000]))
   \<and> shouldUseHeatmap utc_d3
        (linearScale 1577836800000 1609459200000 700 [1577836800000, 1609459200000])
        None None None"
proof -
  let ?bad = "\<lparr>xs_domain = Some [NotDate, Date 7], xs_ticks = (\<lambda>n. None), xs_px = (\<lambda>t. 0)\<rparr>"
  let ?good = "linearScale 1577836800000 1609459200000 700 [1577836800000, 1609459200000]"
  have b: "malformed (xs_domain ?bad)" by (simp add: malformed_def)
  have g: "\<not> malformed (xs_domain ?good)"
    using linearScale_valid [of 1577836800000 1609459200000 700 "[1577836800000, 1609459200000]"]
    by (simp add: validateDomain_None_iff [symmetric])
  have t: "getTimeScale utc_d3 ?good None None None = ''months''"
    by (simp add: getTimeScale_def linearScale_valid linearScale_sel(2) tickCountOf_def
          detect_2020_2021 BUCKET_SCALE_MAP_def)
  from shouldUseHeatmap_cases [of ?bad utc_d3 None None None]
    shouldUseHeatmap_cases [of ?good utc_d3 None None None] b g t
  show ?thesis by simp
qed

section \<open>Intensity normalization\<close>

lemma fold_max_Max: "fold max xs (a::nat) = Max (insert a (set xs))"
  using Max.set_eq_fold [of a xs] by simp

lemma getMaxIntensity_cases:
  "getMaxIntensity bs
     = (if bs = [] \<or> (\<forall>b \<in> set bs. count b = 0) then 1 else Max (count ` set bs))"
proof (cases "bs = [] \<or> (\<forall>b \<in> set bs. count b = 0)")
  case True
  then show ?thesis
  proof
    assume "bs = []" then show ?thesis by (simp add: getMaxIntensity_def)
  next
    assume z: "\<forall>b \<in> set bs. count b = 0"
    then have i: "insert 0 (count ` set bs) = {0}" by auto
    have "fold max (map count bs) 0 = Max (insert 0 (count ` set bs))"
      by (simp add: fold_max_Max)
    also have "\<dots> = 0" unfolding i by simp
    finally show ?thesis using z by (simp add: getMaxIntensity_def)
  qed
next
  case False
  then obtain b where b: "b \<in> set bs" "0 < count b" by auto
  have ne: "count ` set bs \<noteq> {}" using b by auto
  have m: "Max (insert 0 (count ` set bs)) = Max (count ` set bs)"
    using ne by (simp add: max_def)
  have "count b \<le> Max (count ` set bs)" using b by simp
  with b have "0 < Max (count ` set bs)" by linarith
  with False m show ?thesis by (simp add: getMaxIntensity_def fold_max_Max)
qed

lemma getMaxIntensity_pos: "0 < getMaxIntensity bs"
  by (simp add: getMaxIntensity_def Let_def)

lemma getMaxIntensity_ge: "b \<in> set bs \<Longrightarrow> count b \<le> getMaxIntensity bs"
  by (cases "count b = 0") (auto simp: getMaxIntensity_cases)

lemma getMaxIntensity_attained:
  assumes "bs \<noteq> []" and "\<forall>b \<in> set bs. 1 \<le> count b"
  shows "\<exists>b \<in> set bs. count b = getMaxIntensity bs"
proof -
  from assms obtain b0 where "b0 \<in> set bs" by (cases bs) auto
  with assms(2) have nz: "\<not> (\<forall>b \<in> set bs. count b = 0)" by force
  have "Max (count ` set bs) \<in> count ` set bs"
    using assms(1) by (intro Max_in) auto
  then have "\<exists>b \<in> set bs. Max (count ` set bs) = count b"
    by (simp only: image_iff)
  with nz assms(1) show ?thesis by (auto simp: getMaxIntensity_cases)
qed

lemma set_update_subset: "set (AList.update k v m) \<subseteq> insert (k, v) (set m)"
  by (induction m) auto

lemma aggregateStep_counts:
  assumes "\<forall>p \<in> set m. 1 \<le> count (snd p)"
  shows "\<forall>p \<in> set (aggregateStep dropDate iv s e lo hi ev m). 1 \<le> count (snd p)"
proof (cases "aggregateStep dropDate iv s e lo hi ev m = m")
  case True
  with assms show ?thesis by simp
next
  case False
  then obtain t where t: "dropDate ev = Date t"
    and c: "\<not> (t < s \<or> e \<le> t)" "lo \<le> floor_iv iv t \<and> floor_iv iv t \<le> hi"
    by (cases "dropDate ev") (auto simp: aggregateStep_def Let_def split: if_splits)
  let ?k = "floor_iv iv t"
  show ?thesis
  proof (cases "map_of m ?k")
    case None
    then have "aggregateStep dropDate iv s e lo hi ev m
                 = AList.update ?k \<lparr>date = ?k, count = Suc 0, events = [ev]\<rparr> m"
      using t c by (simp add: aggregateStep_def Let_def update_conv')
    with assms set_update_subset [of ?k "\<lparr>date = ?k, count = Suc 0, events = [ev]\<rparr>" m]
    show ?thesis by auto
  next
    case (Some b)
    then have "aggregateStep dropDate iv s e lo hi ev m
                 = AList.update ?k (b\<lparr>count := count b + 1, events := events b @ [ev]\<rparr>) m"
      using t c by (simp add: aggregateStep_def Let_def)
    with assms
      set_update_subset [of ?k "b\<lparr>count := count b + 1, events := events b @ [ev]\<rparr>" m]
    show ?thesis by auto
  qed
qed

lemma aggregate_fold_counts:
  "\<forall>p \<in> set m. 1 \<le> count (snd p) \<Longrightarrow>
     \<forall>p \<in> set (fold (aggregateStep dropDate iv s e lo hi) es m). 1 \<le> count (snd p)"
proof (induction es arbitrary: m)
  case Nil
  then show ?case by simp
next
  case (Cons ev es)
  have "\<forall>p \<in> set (aggregateStep dropDate iv s e lo hi ev m). 1 \<le> count (snd p)"
    using Cons.prems by (rule aggregateStep_counts)
  then have "\<forall>p \<in> set (fold (aggregateStep dropDate iv s e lo hi) es
                 (aggregateStep dropDate iv s e lo hi ev m)). 1 \<le> count (snd p)"
    by (rule Cons.IH)
  then show ?case by simp
qed

lemma aggregateEvents_counts:
  "b \<in> set (aggregateEvents xScale dropDate evs iv) \<Longrightarrow> 1 \<le> count b"
proof -
  assume b: "b \<in> set (aggregateEvents xScale dropDate evs iv)"
  show ?thesis
  proof (cases "validateDomain (xs_domain xScale)")
    case None
    with b show ?thesis by (simp add: aggregateEvents_def)
  next
    case (Some di)
    show ?thesis
    proof (cases evs)
      case None
      with Some b show ?thesis by (simp add: aggregateEvents_def)
    next
      case (Some es)
      have "\<forall>p \<in> set (fold (aggregateStep dropDate iv (dstart di) (dend di)
                 (floor_iv iv (dstart di)) (ceil_iv iv (dend di))) es []). 1 \<le> count (snd p)"
        by (rule aggregate_fold_counts) simp
      with b \<open>validateDomain (xs_domain xScale) = Some di\<close> Some show ?thesis
        by (auto simp: aggregateEvents_def Let_def)
    qed
  qed
qed


lemma intensity_extend: "intensity (bucket.extend b \<lparr>intensity = x\<rparr>) = x"
  by (simp add: bucket.defs)

lemma count_extend: "count (bucket.extend b m) = count b"
  by (simp add: bucket.defs)

lemma truncate_extend: "bucket.truncate (bucket.extend b m) = b"
  by (simp add: bucket.defs)

lemma getHeatmapBucketData_unfold:
  assumes "data r = Some evs"
  shows "getHeatmapBucketData xScale dropDate iv (Some r)
     = map (\<lambda>b. bucket.extend b
               \<lparr>intensity = real (count b)
                  / real (getMaxIntensity (aggregateEvents xScale dropDate evs iv))\<rparr>)
         (aggregateEvents xScale dropDate evs iv)"
proof -
  let ?bs = "aggregateEvents xScale dropDate evs iv"
  have "min (real (count b) / real (getMaxIntensity ?bs)) 1
          = real (count b) / real (getMaxIntensity ?bs)" if "b \<in> set ?bs" for b
  proof -
    have "real (count b) \<le> real (getMaxIntensity ?bs)"
      using getMaxIntensity_ge [OF that] by simp
    moreover have "0 < real (getMaxIntensity ?bs)"
      using getMaxIntensity_pos [of ?bs] by simp
    ultimately have "real (count b) / real (getMaxIntensity ?bs) \<le> 1" by simp
    then show ?thesis by simp
  qed
  then show ?thesis
    using assms getMaxIntensity_pos [of ?bs]
    by (simp add: getHeatmapBucketData_def Let_def)
qed

text \<open>
  Claim C8. \<open>getMaxIntensity\<close> is the maximum count of the row's buckets, or 1 when
  there is no bucket or every count is 0. \<open>getHeatmapBucketData\<close> returns the buckets of
  \<open>aggregateEvents\<close>, each with the intensity \<open>count / maxCount\<close>, which lies between 0
  and 1; when there is at least one bucket the largest intensity is 1, and when there
  is none (also for a missing row or missing data) the result is empty.
\<close>

theorem heatmap_intensity_normalized:
  "getMaxIntensity bs
     = (if bs = [] \<or> (\<forall>b \<in> set bs. count b = 0) then 1 else Max (count ` set bs))
   \<and> getHeatmapBucketData xScale dropDate iv None = []
   \<and> (data r = None \<longrightarrow> getHeatmapBucketData xScale dropDate iv (Some r) = [])
   \<and> (data r = Some evs \<longrightarrow>
        map bucket.truncate (getHeatmapBucketData xScale dropDate iv (Some r))
          = aggregateEvents xScale dropDate evs iv
      \<and> (\<forall>hb \<in> set (getHeatmapBucketData xScale dropDate iv (Some r)).
            intensity hb
              = real (count hb) / real (getMaxIntensity (aggregateEvents xScale dropDate evs iv))
          \<and> 0 \<le> intensity hb \<and> intensity hb \<le> 1)
      \<and> (aggregateEvents xScale dropDate evs iv \<noteq> [] \<longrightarrow>
            Max (intensity ` set (getHeatmapBucketData xScale dropDate iv (Some r))) = 1)
      \<and> (aggregateEvents xScale dropDate evs iv = [] \<longrightarrow>
            getHeatmapBucketData xScale dropDate iv (Some r) = []))"
proof (intro conjI impI)
  show "getMaxIntensity bs
     = (if bs = [] \<or> (\<forall>b \<in> set bs. count b = 0) then 1 else Max (count ` set bs))"
    by (rule getMaxIntensity_cases)
  show "getHeatmapBucketData xScale dropDate iv None = []"
    by (simp add: getHeatmapBucketData_def)
  show "getHeatmapBucketData xScale dropDate iv (Some r) = []" if "data r = None"
    using that by (simp add: getHeatmapBucketData_def)
next
  assume d: "data r = Some evs"
  let ?bs = "aggregateEvents xScale dropDate evs iv"
  let ?M = "getMaxIntensity ?bs"
  let ?out = "getHeatmapBucketData xScale dropDate iv (Some r)"
  note u = getHeatmapBucketData_unfold [OF d, of xScale dropDate iv]
  show "map bucket.truncate ?out = ?bs"
    by (simp add: u truncate_extend comp_def)
  have Mpos: "0 < real ?M" using getMaxIntensity_pos [of ?bs] by simp
  have each: "intensity hb = real (count hb) / real ?M \<and> 0 \<le> intensity hb \<and> intensity hb \<le> 1"
    if "hb \<in> set ?out" for hb
  proof -
    from that obtain b where b: "b \<in> set ?bs"
      and hb: "hb = bucket.extend b \<lparr>intensity = real (count b) / real ?M\<rparr>"
      by (auto simp: u)
    have "real (count b) \<le> real ?M" using getMaxIntensity_ge [OF b] by simp
    with Mpos have "real (count b) / real ?M \<le> 1" by simp
    with Mpos show ?thesis by (simp add: hb intensity_extend count_extend)
  qed
  then show "\<forall>hb \<in> set ?out. intensity hb = real (count hb) / real ?M
               \<and> 0 \<le> intensity hb \<and> intensity hb \<le> 1"
    by blast
  show "Max (intensity ` set ?out) = 1" if ne: "?bs \<noteq> []"
  proof (rule Max_eqI)
    show "finite (intensity ` set ?out)" by simp
    show "y \<le> 1" if "y \<in> intensity ` set ?out" for y
    proof -
      from that obtain hb where "hb \<in> set ?out" "y = intensity hb" by blast
      with each [of hb] show ?thesis by simp
    qed
    have "\<forall>b \<in> set ?bs. 1 \<le> count b" by (blast intro: aggregateEvents_counts)
    with getMaxIntensity_attained [OF ne] obtain b where b: "b \<in> set ?bs" "count b = ?M"
      by blast
    have "intensity (bucket.extend b \<lparr>intensity = real (count b) / real ?M\<rparr>) = 1"
      using b Mpos by (simp add: intensity_extend)
    moreover have "bucket.extend b \<lparr>intensity = real (count b) / real ?M\<rparr> \<in> set ?out"
      unfolding u set_map using b(1) by (rule imageI)
    ultimately show "1 \<in> intensity ` set ?out" by (metis imageI)
  qed
  show "?out = []" if "?bs = []"
    using that by (simp add: u)
qed


lemma aggregate_scenario:
  "aggregateEvents (linearScale 1577836800000 1578441600000 700 []) id
     (Some [Date 1577923200000, Date 1577923200000, Date 1578182400000]) (timeDay utc_d3)
   = [\<lparr>date = 1577923200000, count = 2,
        events = [Date 1577923200000, Date 1577923200000]\<rparr>,
      \<lparr>date = 1578182400000, count = 1, events = [Date 1578182400000]\<rparr>]"
  by (simp add: aggregateEvents_def linearScale_valid aggregateStep_def utc_d3_sel
        fixedInterval_simps msPerDay_def)

theorem heatmap_intensity_normalized_witness:
  "data \<lparr>data = Some (Some [Date 1577923200000, Date 1577923200000, Date 1578182400000])\<rparr>
     = Some (Some [Date 1577923200000, Date 1577923200000, Date 1578182400000])
   \<and> aggregateEvents (linearScale 1577836800000 1578441600000 700 []) id
         (Some [Date 1577923200000, Date 1577923200000, Date 1578182400000]) (timeDay utc_d3)
       \<noteq> []
   \<and> map intensity
         (getHeatmapBucketData (linearScale 1577836800000 1578441600000 700 []) id
            (timeDay utc_d3)
            (Some \<lparr>data = Some (Some [Date 1577923200000, Date 1577923200000,
                                        Date 1578182400000])\<rparr>))
       = [1, 1 / 2]
   \<and> Max (intensity ` set
         (getHeatmapBucketData (linearScale 1577836800000 1578441600000 700 []) id
            (timeDay utc_d3)
            (Some \<lparr>data = Some (Some [Date 1577923200000, Date 1577923200000,
                                        Date 1578182400000])\<rparr>))) = 1"
proof -
  let ?es = "[Date 1577923200000, Date 1577923200000, Date 1578182400000]"
  let ?r = "\<lparr>data = Some (Some ?es)\<rparr>"
  let ?x = "linearScale 1577836800000 1578441600000 700 []"
  have d: "data ?r = Some (Some ?es)" by simp
  have i: "map intensity (getHeatmapBucketData ?x id (timeDay utc_d3) (Some ?r)) = [1, 1 / 2]"
    by (simp add: getHeatmapBucketData_unfold [OF d] aggregate_scenario intensity_extend
          getMaxIntensity_def)
  have n: "aggregateEvents ?x id (Some ?es) (timeDay utc_d3) \<noteq> []"
    by (simp add: aggregate_scenario)
  from heatmap_intensity_normalized [of "[]" ?x id "timeDay utc_d3" ?r "Some ?es"] d n
  have "Max (intensity ` set (getHeatmapBucketData ?x id (timeDay utc_d3) (Some ?r))) = 1"
    by blast
  with d n i show ?thesis by blast
qed

section \<open>Refinement under width constraints\<close>





















end
